theory Spec2Isabelle
  imports Complex_Main
begin

section \<open>Values handled by the estimators\<close>

text \<open>
  The module \<open>probtorch/objectives/montecarlo.py\<close> works on two kinds of values: plain
  Python numbers (\<open>isinstance(v, Number)\<close>) and torch tensors. A tensor is modelled as torch
  stores a contiguous one: its shape and its elements in row-major order. Elements are
  real numbers, so the theory is about the exact arithmetic of the estimators, not
  about rounding.
\<close>

record tensor =
  shape :: "nat list"
  data :: "real list"

definition wf_tensor :: "tensor \<Rightarrow> bool" where
  "wf_tensor t = (length (data t) = prod_list (shape t))"

definition scalar_tensor :: "real \<Rightarrow> tensor" where
  "scalar_tensor r = \<lparr>shape = [], data = [r]\<rparr>"

datatype val = Num real | Ten tensor

text \<open>
  The failures the tensor library and Python raise on these values: a method called on a
  plain number (\<open>AttributeError\<close>), operands whose shapes do not broadcast (torch raises
  \<open>RuntimeError\<close>), an axis that the tensor does not have (\<open>IndexError\<close>).
\<close>

datatype error = AttributeError | RuntimeError | IndexError

definition res_bind :: "error + 'a \<Rightarrow> ('a \<Rightarrow> error + 'b) \<Rightarrow> error + 'b" where
  "res_bind m f = (case m of Inl e \<Rightarrow> Inl e | Inr a \<Rightarrow> f a)"

subsection \<open>Tensor primitives\<close>

text \<open>
  Size of axis 0 and number of elements below it. A 0-dimensional tensor is accepted by
  torch wherever axis 0 is asked for and behaves as one row of one element.
\<close>

definition dim0 :: "tensor \<Rightarrow> nat" where
  "dim0 t = (case shape t of [] \<Rightarrow> 1 | s # rest \<Rightarrow> s)"

definition inner0 :: "tensor \<Rightarrow> nat" where
  "inner0 t = (case shape t of [] \<Rightarrow> 1 | s # rest \<Rightarrow> prod_list rest)"

text \<open>\<open>t.mean()\<close>: the mean of all elements, a 0-dimensional tensor. (On a tensor without
  elements torch answers nan; the real-valued model has \<open>0 / 0 = 0\<close> there.)\<close>

definition tmean :: "tensor \<Rightarrow> tensor" where
  "tmean t = scalar_tensor (sum_list (data t) / real (length (data t)))"

text \<open>\<open>t.sum()\<close>: the sum of all elements, a 0-dimensional tensor.\<close>

definition tsum :: "tensor \<Rightarrow> tensor" where
  "tsum t = scalar_tensor (sum_list (data t))"

text \<open>\<open>softmax(t, 0)\<close>: the element at row \<open>s\<close>, position \<open>j\<close> below axis 0, is
  \<open>exp (t[s, j])\<close> divided by the sum of \<open>exp (t[s', j])\<close> over all rows \<open>s'\<close>.\<close>

definition softmax0 :: "tensor \<Rightarrow> tensor" where
  "softmax0 t =
     \<lparr>shape = shape t,
      data = map (\<lambda>k. exp (data t ! k) /
                        sum_list (map (\<lambda>s. exp (data t ! (s * inner0 t + k mod inner0 t)))
                                      [0..<dim0 t]))
                 [0..<length (data t)]\<rparr>"

text \<open>\<open>t.sum(0)\<close>: axis 0 is summed away.\<close>

definition sum0 :: "tensor \<Rightarrow> tensor" where
  "sum0 t =
     \<lparr>shape = tl (shape t),
      data = map (\<lambda>j. sum_list (map (\<lambda>s. data t ! (s * inner0 t + j)) [0..<dim0 t]))
                 [0..<inner0 t]\<rparr>"

text \<open>Summation over every axis except axis \<open>d\<close>; the result has the one axis left.\<close>

definition sum_except :: "nat \<Rightarrow> tensor \<Rightarrow> tensor" where
  "sum_except d t =
     (let outer = prod_list (take d (shape t));
          n = shape t ! d;
          inner = prod_list (drop (Suc d) (shape t))
      in \<lparr>shape = [n],
          data = map (\<lambda>s. sum_list (concat (map (\<lambda>oi. map (\<lambda>i. data t ! ((oi * n + s) * inner + i))
                                                         [0..<inner])
                                                 [0..<outer])))
                     [0..<n]\<rparr>)"

subsection \<open>Broadcasting\<close>

text \<open>
  Elementwise operations of torch align the shapes of the operands at their last axis; two
  sizes are compatible when they are equal or one of them is 1. \<open>bshape\<close> works on the
  reversed shapes.
\<close>

fun bshape :: "nat list \<Rightarrow> nat list \<Rightarrow> nat list option" where
  "bshape [] ys = Some ys"
| "bshape (x # xs) [] = Some (x # xs)"
| "bshape (x # xs) (y # ys) =
     (if x = y \<or> y = 1 then map_option ((#) x) (bshape xs ys)
      else if x = 1 then map_option ((#) y) (bshape xs ys)
      else None)"

text \<open>All index tuples of a shape, in row-major order.\<close>

fun indices :: "nat list \<Rightarrow> nat list list" where
  "indices [] = [[]]"
| "indices (n # ns) = concat (map (\<lambda>i. map ((#) i) (indices ns)) [0..<n])"

text \<open>Position in the row-major data of the element an index tuple of the broadcast
  result reads from an operand: an axis of size 1 is read at 0.\<close>

fun offs :: "nat list \<Rightarrow> nat list \<Rightarrow> nat" where
  "offs (n # ns) (i # is) = (if n = 1 then 0 else i) * prod_list ns + offs ns is"
| "offs _ _ = 0"

definition pad :: "nat list \<Rightarrow> nat list \<Rightarrow> nat list" where
  "pad rs s = replicate (length rs - length s) 1 @ s"

definition tbin :: "(real \<Rightarrow> real \<Rightarrow> real) \<Rightarrow> tensor \<Rightarrow> tensor \<Rightarrow> error + tensor" where
  "tbin f a b =
     (case bshape (rev (shape a)) (rev (shape b)) of
        None \<Rightarrow> Inl RuntimeError
      | Some r \<Rightarrow>
          Inr \<lparr>shape = rev r,
               data = map (\<lambda>ix. f (data a ! offs (pad (rev r) (shape a)) ix)
                                   (data b ! offs (pad (rev r) (shape b)) ix))
                          (indices (rev r))\<rparr>)"

definition tmap :: "(real \<Rightarrow> real) \<Rightarrow> tensor \<Rightarrow> tensor" where
  "tmap f t = \<lparr>shape = shape t, data = map f (data t)\<rparr>"

subsection \<open>Python's operators and methods on numbers and tensors\<close>

fun vbin :: "(real \<Rightarrow> real \<Rightarrow> real) \<Rightarrow> val \<Rightarrow> val \<Rightarrow> error + val" where
  "vbin f (Num a) (Num b) = Inr (Num (f a b))"
| "vbin f (Num a) (Ten t) = Inr (Ten (tmap (f a) t))"
| "vbin f (Ten t) (Num b) = Inr (Ten (tmap (\<lambda>x. f x b) t))"
| "vbin f (Ten s) (Ten t) = map_sum id Ten (tbin f s t)"

definition vadd :: "val \<Rightarrow> val \<Rightarrow> error + val" where
  "vadd = vbin (+)"

definition vsub :: "val \<Rightarrow> val \<Rightarrow> error + val" where
  "vsub = vbin (-)"

definition vmul :: "val \<Rightarrow> val \<Rightarrow> error + val" where
  "vmul = vbin (*)"

text \<open>\<open>v.mean()\<close> and \<open>v.sum(0)\<close>: a plain number has neither method.\<close>

fun vmean :: "val \<Rightarrow> error + val" where
  "vmean (Num r) = Inl AttributeError"
| "vmean (Ten t) = Inr (Ten (tmean t))"

fun vsum0 :: "val \<Rightarrow> error + val" where
  "vsum0 (Num r) = Inl AttributeError"
| "vsum0 (Ten t) = Inr (Ten (sum0 t))"

section \<open>Traces\<close>

text \<open>
  Modelled from the spec: the class \<open>Trace\<close> and its nodes are not part of the module, so
  \<open>node\<close>, \<open>log_density\<close>, \<open>is_conditioned\<close>, \<open>trace\<close>, \<open>names\<close>, \<open>contains\<close>,
  \<open>conditioned\<close> and \<open>sampled\<close> follow the spec (section 3, section 6, section 9): a trace
  is an ordered mapping from a variable name to a node; a node is tagged sampled or
  conditioned and carries its log-density, a tensor or a plain number; a trace offers its
  names, membership by name (\<open>n in q\<close>), the conditioned names and the sampled names.
\<close>

datatype node = Sampled val | Conditioned val

fun log_density :: "node \<Rightarrow> val" where
  "log_density (Sampled v) = v"
| "log_density (Conditioned v) = v"

fun is_conditioned :: "node \<Rightarrow> bool" where
  "is_conditioned (Sampled v) = False"
| "is_conditioned (Conditioned v) = True"

type_synonym trace = "(string \<times> node) list"

definition names :: "trace \<Rightarrow> string list" where
  "names tr = map fst tr"

definition contains :: "trace \<Rightarrow> string \<Rightarrow> bool" where
  "contains tr n = (n \<in> set (names tr))"

definition conditioned :: "trace \<Rightarrow> string list" where
  "conditioned tr = map fst (filter (\<lambda>(n, nd). is_conditioned nd) tr)"

definition sampled :: "trace \<Rightarrow> string list" where
  "sampled tr = map fst (filter (\<lambda>(n, nd). \<not> is_conditioned nd) tr)"

section \<open>Log-probability reduction\<close>

text \<open>
  Modelled from the spec: \<open>probtorch.util.sum_log_prob\<close> is imported by the module and
  is not part of it, so \<open>reduce_node\<close>, \<open>sum_nodes\<close> and \<open>sum_log_prob\<close> follow the spec
  (section 4.1): the sum, over all listed names and over every tensor axis except the
  sample axis, of each node's log-density; zero (the plain number) when no name is listed
  or the listed names are absent from the trace; a single scalar-like value when the
  sample axis is unset, and exactly the sample axis otherwise. The batch axis is summed
  away like every other axis. A sample axis that a node's tensor does not have is a
  failure of the tensor library.
\<close>

fun reduce_node :: "int option \<Rightarrow> val \<Rightarrow> error + val" where
  "reduce_node sample_dim (Num r) = Inr (Num r)"
| "reduce_node None (Ten t) = Inr (Ten (tsum t))"
| "reduce_node (Some d) (Ten t) =
     (if 0 \<le> d \<and> nat d < length (shape t) then Inr (Ten (sum_except (nat d) t))
      else Inl IndexError)"

fun sum_nodes :: "trace \<Rightarrow> int option \<Rightarrow> val \<Rightarrow> string list \<Rightarrow> error + val" where
  "sum_nodes tr sample_dim acc [] = Inr acc"
| "sum_nodes tr sample_dim acc (n # ns) =
     (case map_of tr n of
        None \<Rightarrow> sum_nodes tr sample_dim acc ns
      | Some nd \<Rightarrow>
          res_bind (reduce_node sample_dim (log_density nd)) (\<lambda>log_p.
          res_bind (vadd acc log_p) (\<lambda>acc'.
          sum_nodes tr sample_dim acc' ns)))"

definition sum_log_prob :: "trace \<Rightarrow> int option \<Rightarrow> int option \<Rightarrow> string list \<Rightarrow> error + val" where
  "sum_log_prob tr sample_dim batch_dim nodes = sum_nodes tr sample_dim (Num 0) nodes"

section \<open>The estimators of \<open>montecarlo.py\<close>\<close>

text \<open>
  Each function follows its source line by line; \<open>res_bind\<close> is the sequencing of
  Python statements, an exception ending the call. The optional argument
  \<open>log_weights\<close> is \<open>None\<close> or a value.
\<close>

definition log_like :: "trace \<Rightarrow> trace \<Rightarrow> int option \<Rightarrow> int option \<Rightarrow> val option \<Rightarrow> error + val" where
  "log_like q p sample_dim batch_dim log_weights =
     (let x = filter (\<lambda>n. \<not> contains q n) (conditioned p) in
      res_bind (sum_log_prob p sample_dim batch_dim x) (\<lambda>log_prob.
      if sample_dim = None then vmean log_prob
      else
        res_bind (case log_weights of
                    None \<Rightarrow> sum_log_prob q sample_dim batch_dim (conditioned q)
                  | Some w \<Rightarrow> Inr w) (\<lambda>log_weights.
        case log_weights of
          Num r \<Rightarrow> vmean log_prob
        | Ten w \<Rightarrow>
            (let weights = softmax0 w in
             res_bind (vmul (Ten weights) log_prob) (\<lambda>wl.
             res_bind (vsum0 wl) vmean)))))"

definition kl :: "trace \<Rightarrow> trace \<Rightarrow> int option \<Rightarrow> int option \<Rightarrow> val option \<Rightarrow> error + val" where
  "kl q p sample_dim batch_dim log_weights =
     (let z = sampled q in
      res_bind (sum_log_prob p sample_dim batch_dim z) (\<lambda>log_p.
      res_bind (sum_log_prob q sample_dim batch_dim z) (\<lambda>log_q.
      res_bind (vsub log_q log_p) (\<lambda>log_qp.
      if sample_dim = None then vmean log_qp
      else
        res_bind (case log_weights of
                    None \<Rightarrow> sum_log_prob q sample_dim batch_dim (conditioned q)
                  | Some w \<Rightarrow> Inr w) (\<lambda>log_weights.
        case log_weights of
          Num r \<Rightarrow> vmean log_qp
        | Ten w \<Rightarrow>
            (let weights = softmax0 w in
             res_bind (vmul (Ten weights) log_qp) (\<lambda>wl.
             res_bind (vsum0 wl) vmean)))))))"

definition ml :: "trace \<Rightarrow> int option \<Rightarrow> int option \<Rightarrow> error + val" where
  "ml q sample_dim batch_dim =
     res_bind (sum_log_prob q sample_dim batch_dim (conditioned q)) (\<lambda>log_q.
     case log_q of
       Num r \<Rightarrow> Inr (Num r)
     | Ten t \<Rightarrow> vmean (Ten t))"

definition elbo :: "trace \<Rightarrow> trace \<Rightarrow> int option \<Rightarrow> int option \<Rightarrow> real \<Rightarrow> real \<Rightarrow> error + val" where
  "elbo q p sample_dim batch_dim alpha beta =
     res_bind (sum_log_prob q sample_dim batch_dim (conditioned q)) (\<lambda>log_weights.
     res_bind (log_like q p sample_dim batch_dim (Some log_weights)) (\<lambda>ll.
     res_bind (kl q p sample_dim batch_dim (Some log_weights)) (\<lambda>k.
     res_bind (vmul (Num beta) k) (\<lambda>bk.
     res_bind (vsub ll bk) (\<lambda>d.
     res_bind (ml q sample_dim batch_dim) (\<lambda>m.
     res_bind (vmul (Num alpha) m) (\<lambda>am.
     vadd d am)))))))"

section \<open>The branch structure of the estimators\<close>




section \<open>Example traces\<close>

text \<open>
  Scenario A of the spec: no sample axis; \<open>q\<close> has the latent \<open>z\<close> with log-density 2 and
  the conditioned \<open>y\<close> with log-density 1; \<open>p\<close> conditions \<open>x\<close> with log-density 3 and
  holds \<open>z\<close> with log-density -1.
\<close>

definition scenario_q :: trace where
  "scenario_q = [(''z'', Sampled (Ten (scalar_tensor 2))),
                 (''y'', Conditioned (Ten (scalar_tensor 1)))]"

definition scenario_p :: trace where
  "scenario_p = [(''x'', Conditioned (Ten (scalar_tensor 3))),
                 (''z'', Conditioned (Ten (scalar_tensor (- 1))))]"

text \<open>
  Two samples (axis 0) with the log-weights \<open>[0, ln 3]\<close> of scenario C of the spec, and an
  observation \<open>x\<close> with two batch items (axis 1).
\<close>

definition weighted_q :: trace where
  "weighted_q = [(''z'', Sampled (Ten \<lparr>shape = [2], data = [2, 5]\<rparr>)),
                 (''y'', Conditioned (Ten \<lparr>shape = [2], data = [0, ln 3]\<rparr>))]"

definition weighted_p :: trace where
  "weighted_p = [(''x'', Conditioned (Ten \<lparr>shape = [2, 2], data = [1, 3, 2, 6]\<rparr>)),
                 (''z'', Conditioned (Ten \<lparr>shape = [2], data = [1, 1]\<rparr>))]"

text \<open>
  A decoder trace for scenario A that conditions no observation: its only node is \<open>z\<close>,
  which \<open>q\<close> has too.
\<close>

definition latent_p :: trace where
  "latent_p = [(''z'', Conditioned (Ten (scalar_tensor (- 1))))]"

text \<open>
  Traces that share their only name, a conditioned one: nothing is sampled in \<open>q\<close>, and
  nothing conditioned in \<open>p\<close> is absent from \<open>q\<close>.
\<close>

definition labels_q :: trace where
  "labels_q = [(''y'', Conditioned (Ten (scalar_tensor 1)))]"

definition labels_p :: trace where
  "labels_p = [(''y'', Conditioned (Ten (scalar_tensor (- 2))))]"

section \<open>Basic facts\<close>

lemmas eval_defs = log_like_def kl_def ml_def sum_log_prob_def conditioned_def sampled_def
     contains_def names_def res_bind_def vadd_def vsub_def vmul_def tmap_def tmean_def tsum_def scalar_tensor_def tbin_def pad_def

lemma res_bind_Inl [simp]: "res_bind (Inl e) f = Inl e"
  by (simp add: res_bind_def)

lemma res_bind_Inr [simp]: "res_bind (Inr a) f = f a"
  by (simp add: res_bind_def)

lemma vmul_Num_scalar: "vmul (Num b) (Ten (scalar_tensor x)) = Inr (Ten (scalar_tensor (b * x)))"
  by (simp add: vmul_def tmap_def scalar_tensor_def)

lemma vmul_Num_Num: "vmul (Num b) (Num x) = Inr (Num (b * x))"
  by (simp add: vmul_def)

lemma vsub_scalars:
  "vsub (Ten (scalar_tensor a)) (Ten (scalar_tensor b)) = Inr (Ten (scalar_tensor (a - b)))"
  by (simp add: vsub_def tbin_def scalar_tensor_def pad_def)

lemma vadd_scalars:
  "vadd (Ten (scalar_tensor a)) (Ten (scalar_tensor b)) = Inr (Ten (scalar_tensor (a + b)))"
  by (simp add: vadd_def tbin_def scalar_tensor_def pad_def)

lemma vadd_scalar_Num:
  "vadd (Ten (scalar_tensor a)) (Num b) = Inr (Ten (scalar_tensor (a + b)))"
  by (simp add: vadd_def tmap_def scalar_tensor_def)

lemma tmean_scalar: "tmean (scalar_tensor r) = scalar_tensor r"
  by (simp add: tmean_def scalar_tensor_def)

subsection \<open>Softmax along axis 0\<close>

lemma exp_sum_list_pos:
  assumes "0 < n"
  shows "0 < sum_list (map (\<lambda>s. exp (f s :: real)) [0..<n])"
proof -
  have "sum_list (map (\<lambda>s. exp (f s)) [0..<n]) = sum (\<lambda>s. exp (f s)) {0..<n}"
    by (simp add: interv_sum_list_conv_sum_set_nat)
  moreover have "0 < sum (\<lambda>s. exp (f s)) {0..<n}"
    using assms by (intro sum_pos) auto
  ultimately show ?thesis by simp
qed

lemma exp_sum_list_nonneg: "0 \<le> sum_list (map (\<lambda>s. exp (f s :: real)) xs)"
  by (induction xs) (auto intro: add_nonneg_nonneg)

lemma sum_list_divide_const:
  "sum_list (map (\<lambda>s. g s / (c::real)) xs) = sum_list (map g xs) / c"
  by (induction xs) (auto simp: add_divide_distrib)

lemma softmax0_shape: "shape (softmax0 t) = shape t"
  by (simp add: softmax0_def)

lemma softmax0_nonneg: "x \<in> set (data (softmax0 t)) \<Longrightarrow> 0 \<le> x"
  by (auto simp: softmax0_def intro!: divide_nonneg_nonneg exp_sum_list_nonneg)

lemma softmax0_nth:
  assumes "wf_tensor t" and "shape t = S # rest" and "k < S * prod_list rest"
  shows "data (softmax0 t) ! k =
           exp (data t ! k) /
           sum_list (map (\<lambda>s. exp (data t ! (s * prod_list rest + k mod prod_list rest))) [0..<S])"
  using assms by (simp add: softmax0_def wf_tensor_def dim0_def inner0_def)

lemma softmax0_column:
  assumes wf: "wf_tensor t" and sh: "shape t = S # rest" and S: "0 < S" and j: "j < prod_list rest"
  shows "sum_list (map (\<lambda>s. data (softmax0 t) ! (s * prod_list rest + j)) [0..<S]) = 1"
proof -
  let ?R = "prod_list rest"
  let ?Z = "sum_list (map (\<lambda>s. exp (data t ! (s * ?R + j))) [0..<S])"
  have pos: "0 < ?Z" using S by (rule exp_sum_list_pos)
  have each: "data (softmax0 t) ! (s * ?R + j) = exp (data t ! (s * ?R + j)) / ?Z" if "s < S" for s
  proof -
    have "s * ?R + j < S * ?R"
    proof -
      have "s * ?R + j < s * ?R + ?R" using j by simp
      also have "\<dots> = Suc s * ?R" by simp
      also have "\<dots> \<le> S * ?R" using that by (intro mult_le_mono1) simp
      finally show ?thesis .
    qed
    moreover have "(s * ?R + j) mod ?R = j" using j by simp
    ultimately show ?thesis using softmax0_nth [OF wf sh] by simp
  qed
  have "map (\<lambda>s. data (softmax0 t) ! (s * ?R + j)) [0..<S] =
        map (\<lambda>s. exp (data t ! (s * ?R + j)) / ?Z) [0..<S]"
    by (rule map_cong) (auto simp: each)
  then have "sum_list (map (\<lambda>s. data (softmax0 t) ! (s * ?R + j)) [0..<S]) =
             sum_list (map (\<lambda>s. exp (data t ! (s * ?R + j)) / ?Z) [0..<S])"
    by (rule arg_cong)
  also have "\<dots> = ?Z / ?Z"
    by (rule sum_list_divide_const)
  also have "\<dots> = 1"
    using pos by simp
  finally show ?thesis .
qed

lemma sum0_softmax0:
  assumes wf: "wf_tensor t" and sh: "shape t = S # rest" and S: "0 < S"
  shows "sum0 (softmax0 t) = \<lparr>shape = rest, data = replicate (prod_list rest) 1\<rparr>"
proof -
  have "map (\<lambda>j. sum_list (map (\<lambda>s. data (softmax0 t) ! (s * prod_list rest + j)) [0..<S]))
            [0..<prod_list rest] = map (\<lambda>j. 1) [0..<prod_list rest]"
    by (rule map_cong) (auto simp: softmax0_column [OF wf sh S])
  then show ?thesis
    by (simp add: sum0_def dim0_def inner0_def softmax0_shape sh map_replicate_const)
qed

subsection \<open>Elementwise operations on vectors of one length\<close>

lemma concat_singletons: "concat (map (\<lambda>i. [f i]) xs) = map f xs"
  by (induction xs) auto

lemma indices_single: "indices [S] = map (\<lambda>i. [i]) [0..<S]"
  by (simp add: concat_singletons)

lemma tbin_vectors:
  assumes "shape a = [S]" and "shape b = [S]"
  shows "tbin f a b = Inr \<lparr>shape = [S], data = map (\<lambda>i. f (data a ! i) (data b ! i)) [0..<S]\<rparr>"
proof -
  have "map (\<lambda>ix. f (data a ! offs [S] ix) (data b ! offs [S] ix)) (map (\<lambda>i. [i]) [0..<S])
        = map (\<lambda>i. f (data a ! i) (data b ! i)) [0..<S]"
    by (auto simp: comp_def)
  then show ?thesis
    using assms by (simp add: tbin_def pad_def indices_single)
qed

lemma sum0_vector:
  "sum0 \<lparr>shape = [S], data = map g [0..<S]\<rparr> = scalar_tensor (sum_list (map g [0..<S]))"
proof -
  have "map ((!) (map g [0..<S])) [0..<S] = map g [0..<S]"
    using map_nth [of "map g [0..<S]"] by simp
  moreover have "sum0 \<lparr>shape = [S], data = map g [0..<S]\<rparr>
        = scalar_tensor (sum_list (map ((!) (map g [0..<S])) [0..<S]))"
    by (simp add: sum0_def dim0_def inner0_def scalar_tensor_def)
  ultimately show ?thesis
    by (simp only:)
qed

lemma weighted_mean_vectors:
  assumes "shape w = [S]" and "shape v = [S]"
  shows "res_bind (vmul (Ten (softmax0 w)) (Ten v)) (\<lambda>wv. res_bind (vsum0 wv) vmean)
         = Inr (Ten (scalar_tensor (sum_list (map (\<lambda>s. data (softmax0 w) ! s * data v ! s) [0..<S]))))"
  using assms
  by (simp add: vmul_def tbin_vectors [where S = S] softmax0_shape sum0_vector tmean_scalar)

subsection \<open>The methods of the code and the spelled-out estimates\<close>



subsection \<open>The reductions of the example traces\<close>

lemma sm_eval: "softmax0 \<lparr>shape = [2], data = [0, ln 3]\<rparr> = \<lparr>shape = [2], data = [1/4, 3/4]\<rparr>"
  by (simp add: softmax0_def dim0_def inner0_def upt_rec)

lemma red_x: "sum_log_prob weighted_p (Some 0) (Some 1) [''x''] = Inr (Ten \<lparr>shape = [2], data = [4, 8]\<rparr>)"
  by (simp add: sum_log_prob_def weighted_p_def sum_except_def Let_def upt_rec vadd_def tmap_def)

lemma red_y: "sum_log_prob weighted_q (Some 0) (Some 1) (conditioned weighted_q) = Inr (Ten \<lparr>shape = [2], data = [0, ln 3]\<rparr>)"
  by (simp add: sum_log_prob_def weighted_q_def conditioned_def sum_except_def Let_def upt_rec vadd_def tmap_def)

lemma x_eval: "filter (\<lambda>n. \<not> contains weighted_q n) (conditioned weighted_p) = [''x'']"
  by (simp add: weighted_q_def weighted_p_def contains_def names_def conditioned_def)




lemma sm22_eval:
  "softmax0 \<lparr>shape = [2, 2], data = [0, 0, ln 3, 0]\<rparr>
     = \<lparr>shape = [2, 2], data = [1/4, 1/2, 3/4, 1/2]\<rparr>"
  by (simp add: softmax0_def dim0_def inner0_def upt_rec)

lemma mul22_eval:
  "vmul (Ten \<lparr>shape = [2, 2], data = [1/4, 1/2, 3/4, 1/2]\<rparr>) (Ten \<lparr>shape = [2], data = [4, 8]\<rparr>)
     = Inr (Ten \<lparr>shape = [2, 2], data = [1, 4, 3, 4]\<rparr>)"
  by (simp add: vmul_def tbin_def pad_def upt_rec)




section \<open>The claims\<close>

text \<open>
  Claim C1. \<open>elbo\<close> computes the log-weights once, as the reduction of the conditioned
  names of \<open>q\<close>, hands that one value to both \<open>log_like\<close> and \<open>kl\<close>, and returns
  \<open>log_like - beta * kl + alpha * ml\<close>; a failure of any step ends the call. When the three
  estimates are the numbers \<open>a\<close>, \<open>b\<close> and \<open>c\<close>, the result is the number
  \<open>a - beta * b + alpha * c\<close>.
\<close>

theorem elbo_decomposition:
  "elbo q p sample_dim batch_dim alpha beta =
     (case sum_log_prob q sample_dim batch_dim (conditioned q) of
        Inl e \<Rightarrow> Inl e
      | Inr w \<Rightarrow>
          res_bind (log_like q p sample_dim batch_dim (Some w)) (\<lambda>ll.
          res_bind (kl q p sample_dim batch_dim (Some w)) (\<lambda>k.
          res_bind (vmul (Num beta) k) (\<lambda>bk.
          res_bind (vsub ll bk) (\<lambda>d.
          res_bind (ml q sample_dim batch_dim) (\<lambda>m.
          res_bind (vmul (Num alpha) m) (\<lambda>am.
          vadd d am)))))))
   \<and> (sum_log_prob q sample_dim batch_dim (conditioned q) = Inr w
        \<and> log_like q p sample_dim batch_dim (Some w) = Inr (Ten (scalar_tensor a))
        \<and> kl q p sample_dim batch_dim (Some w) = Inr (Ten (scalar_tensor b))
        \<and> (ml q sample_dim batch_dim = Inr (Ten (scalar_tensor c))
             \<or> ml q sample_dim batch_dim = Inr (Num c))
      \<longrightarrow> elbo q p sample_dim batch_dim alpha beta
            = Inr (Ten (scalar_tensor (a - beta * b + alpha * c))))"
  by (auto simp: elbo_def vmul_Num_scalar vmul_Num_Num vsub_scalars vadd_scalars vadd_scalar_Num
           split: sum.splits)

theorem elbo_decomposition_witness:
  "sum_log_prob scenario_q None None (conditioned scenario_q) = Inr (Ten (scalar_tensor 1))
   \<and> log_like scenario_q scenario_p None None (Some (Ten (scalar_tensor 1))) = Inr (Ten (scalar_tensor 3))
   \<and> kl scenario_q scenario_p None None (Some (Ten (scalar_tensor 1))) = Inr (Ten (scalar_tensor 3))
   \<and> ml scenario_q None None = Inr (Ten (scalar_tensor 1))
   \<and> elbo scenario_q scenario_p None None (1 / 10) 1 = Inr (Ten (scalar_tensor (1 / 10)))"
proof -
  have w: "sum_log_prob scenario_q None None (conditioned scenario_q) = Inr (Ten (scalar_tensor 1))"
    by (simp add: eval_defs scenario_q_def)
  have ll: "log_like scenario_q scenario_p None None (Some (Ten (scalar_tensor 1))) = Inr (Ten (scalar_tensor 3))"
    by (simp add: eval_defs scenario_q_def scenario_p_def)
  have k: "kl scenario_q scenario_p None None (Some (Ten (scalar_tensor 1))) = Inr (Ten (scalar_tensor 3))"
    by (simp add: eval_defs scenario_q_def scenario_p_def)
  have m: "ml scenario_q None None = Inr (Ten (scalar_tensor 1))"
    by (simp add: eval_defs scenario_q_def)
  from elbo_decomposition [of scenario_q scenario_p None None "1 / 10" 1 "Ten (scalar_tensor 1)" 3 3 1]
    w ll k m
  have "elbo scenario_q scenario_p None None (1 / 10) 1
          = Inr (Ten (scalar_tensor (3 - 1 * 3 + 1 / 10 * 1)))"
    by blast
  with w ll k m show ?thesis by simp
qed

text \<open>
  Claim C2. With the sample axis set and log-weights that are a tensor \<open>w\<close>, supplied
  or computed from \<open>q\<close>: \<open>log_like\<close> reduces the log-density of \<open>p\<close> over the names
  conditioned in \<open>p\<close> for which \<open>q\<close> has no node at all, whatever its status; with \<open>m\<close>
  the product of \<open>softmax(w, 0)\<close> and that reduction, it returns the sum of \<open>m[s, j]\<close> over
  the samples \<open>s\<close>, averaged over the positions \<open>j\<close> below the sample axis (the batch
  items): the sum over \<open>j\<close> divided by their number. For one weight and one log-density
  per sample this is the weighted sum of the log-densities.
\<close>

theorem log_like_weighted:
  assumes "sample_dim = Some d"
      and "log_weights = Some (Ten w)
           \<or> (log_weights = None
               \<and> sum_log_prob q sample_dim batch_dim (conditioned q) = Inr (Ten w))"
  shows "log_like q p sample_dim batch_dim log_weights =
           (case sum_log_prob p sample_dim batch_dim
                   (filter (\<lambda>n. \<not> contains q n) (conditioned p)) of
              Inl e \<Rightarrow> Inl e
            | Inr log_prob \<Rightarrow>
                (case vmul (Ten (softmax0 w)) log_prob of
                   Inl e \<Rightarrow> Inl e
                 | Inr (Num r) \<Rightarrow> Inl AttributeError
                 | Inr (Ten m) \<Rightarrow>
                     Inr (Ten (scalar_tensor
                       (sum_list (map (\<lambda>j. sum_list (map (\<lambda>s. data m ! (s * inner0 m + j))
                                                        [0..<dim0 m]))
                                      [0..<inner0 m])
                        / real (inner0 m))))))
       \<and> set (filter (\<lambda>n. \<not> contains q n) (conditioned p))
           = {n \<in> set (conditioned p). \<forall>nd. (n, nd) \<notin> set q}
       \<and> (sum_log_prob p sample_dim batch_dim
             (filter (\<lambda>n. \<not> contains q n) (conditioned p)) = Inr (Ten log_prob)
           \<and> wf_tensor w \<and> shape w = [S] \<and> wf_tensor log_prob \<and> shape log_prob = [S]
          \<longrightarrow> log_like q p sample_dim batch_dim log_weights
                = Inr (Ten (scalar_tensor
                     (sum_list (map (\<lambda>s. data (softmax0 w) ! s * data log_prob ! s) [0..<S])))))"
proof -
  let ?x = "filter (\<lambda>n. \<not> contains q n) (conditioned p)"
  have code: "log_like q p sample_dim batch_dim log_weights =
           res_bind (sum_log_prob p sample_dim batch_dim ?x) (\<lambda>log_prob.
           res_bind (vmul (Ten (softmax0 w)) log_prob) (\<lambda>wl.
           res_bind (vsum0 wl) vmean))"
    using assms by (auto simp: log_like_def Let_def)
  have main: "log_like q p sample_dim batch_dim log_weights =
           (case sum_log_prob p sample_dim batch_dim ?x of
              Inl e \<Rightarrow> Inl e
            | Inr log_prob \<Rightarrow>
                (case vmul (Ten (softmax0 w)) log_prob of
                   Inl e \<Rightarrow> Inl e
                 | Inr (Num r) \<Rightarrow> Inl AttributeError
                 | Inr (Ten m) \<Rightarrow>
                     Inr (Ten (scalar_tensor
                       (sum_list (map (\<lambda>j. sum_list (map (\<lambda>s. data m ! (s * inner0 m + j))
                                                        [0..<dim0 m]))
                                      [0..<inner0 m])
                        / real (inner0 m))))))"
    unfolding code
    by (simp add: res_bind_def tmean_def sum0_def split: sum.splits val.splits)
  have names: "set ?x = {n \<in> set (conditioned p). \<forall>nd. (n, nd) \<notin> set q}"
    by (force simp: contains_def names_def)
  have "log_like q p sample_dim batch_dim log_weights
          = Inr (Ten (scalar_tensor
                     (sum_list (map (\<lambda>s. data (softmax0 w) ! s * data log_prob ! s) [0..<S]))))"
    if "sum_log_prob p sample_dim batch_dim ?x = Inr (Ten log_prob)"
       "shape w = [S]" "shape log_prob = [S]"
    using that by (simp add: code weighted_mean_vectors)
  with main names show ?thesis by blast
qed

theorem log_like_weighted_witness:
  "log_like weighted_q weighted_p (Some 0) (Some 1) None = Inr (Ten (scalar_tensor 7))
   \<and> log_like weighted_q weighted_p (Some 0) (Some 1)
         (Some (Ten \<lparr>shape = [2, 2], data = [0, 0, ln 3, 0]\<rparr>)) = Inr (Ten (scalar_tensor 6))"
proof -
  let ?w = "\<lparr>shape = [2], data = [0, ln 3]\<rparr>"
  let ?w2 = "\<lparr>shape = [2, 2], data = [0, 0, ln 3, 0]\<rparr>"
  let ?lp = "\<lparr>shape = [2], data = [4, 8]\<rparr>"
  have sd: "Some (0::int) = Some 0" by simp
  have lw: "None = Some (Ten ?w)
            \<or> (None = None \<and> sum_log_prob weighted_q (Some 0) (Some 1) (conditioned weighted_q) = Inr (Ten ?w))"
    by (simp add: red_y)
  have hyp: "sum_log_prob weighted_p (Some 0) (Some 1)
               (filter (\<lambda>n. \<not> contains weighted_q n) (conditioned weighted_p)) = Inr (Ten ?lp)
             \<and> wf_tensor ?w \<and> shape ?w = [2] \<and> wf_tensor ?lp \<and> shape ?lp = [2]"
    by (simp add: red_x x_eval wf_tensor_def)
  from log_like_weighted [OF sd lw, of weighted_p ?lp 2] hyp
  have "log_like weighted_q weighted_p (Some 0) (Some 1) None
          = Inr (Ten (scalar_tensor
                 (sum_list (map (\<lambda>s. data (softmax0 ?w) ! s * data ?lp ! s) [0..<2]))))"
    by blast
  then have one: "log_like weighted_q weighted_p (Some 0) (Some 1) None = Inr (Ten (scalar_tensor 7))"
    by (simp add: sm_eval upt_rec)
  have lw2: "Some (Ten ?w2) = Some (Ten ?w2)
             \<or> (Some (Ten ?w2) = None
                 \<and> sum_log_prob weighted_q (Some 0) (Some 1) (conditioned weighted_q) = Inr (Ten ?w2))"
    by simp
  from log_like_weighted [OF sd lw2, of weighted_p]
  have "log_like weighted_q weighted_p (Some 0) (Some 1) (Some (Ten ?w2)) =
           (case sum_log_prob weighted_p (Some 0) (Some 1)
                   (filter (\<lambda>n. \<not> contains weighted_q n) (conditioned weighted_p)) of
              Inl e \<Rightarrow> Inl e
            | Inr log_prob \<Rightarrow>
                (case vmul (Ten (softmax0 ?w2)) log_prob of
                   Inl e \<Rightarrow> Inl e
                 | Inr (Num r) \<Rightarrow> Inl AttributeError
                 | Inr (Ten m) \<Rightarrow>
                     Inr (Ten (scalar_tensor
                       (sum_list (map (\<lambda>j. sum_list (map (\<lambda>s. data m ! (s * inner0 m + j))
                                                        [0..<dim0 m]))
                                      [0..<inner0 m])
                        / real (inner0 m))))))"
    by (rule conjunct1)
  then have two: "log_like weighted_q weighted_p (Some 0) (Some 1) (Some (Ten ?w2))
                    = Inr (Ten (scalar_tensor 6))"
    by (simp add: red_x x_eval sm22_eval mul22_eval dim0_def inner0_def upt_rec)
  from one two show ?thesis by simp
qed



text \<open>
  Claim C4. \<open>ml\<close> returns the mean of all elements of the reduction of the conditioned
  names of \<open>q\<close>; a reduction that is a plain number is returned as it is.
\<close>

theorem ml_mean_or_number:
  "ml q sample_dim batch_dim =
     (case sum_log_prob q sample_dim batch_dim (conditioned q) of
        Inl e \<Rightarrow> Inl e
      | Inr (Num r) \<Rightarrow> Inr (Num r)
      | Inr (Ten t) \<Rightarrow> Inr (Ten (scalar_tensor (sum_list (data t) / real (length (data t))))))"
  by (simp add: ml_def tmean_def split: sum.splits val.splits)

theorem ml_mean_or_number_witness:
  "ml weighted_q (Some 0) (Some 1) = Inr (Ten (scalar_tensor (ln 3 / 2)))
   \<and> ml [] (Some 0) (Some 1) = Inr (Num 0)"
  using ml_mean_or_number [of weighted_q "Some 0" "Some 1"] ml_mean_or_number [of "[]" "Some 0" "Some 1"]
  by (simp add: red_y) (simp add: sum_log_prob_def conditioned_def)

text \<open>
  Claim C5 says that without a sample axis \<open>log_like\<close> and \<open>kl\<close> equal the mean of the
  reduction for every pair of traces. The code does not return at the traces below: the
  decoder conditions no name that \<open>q\<close> lacks (for \<open>kl\<close>: nothing is sampled in \<open>q\<close>), the
  reduction is the plain number 0, and \<open>mean()\<close> is called on it, whatever is passed as
  log-weights. \<open>ml\<close> tests for a plain number before it calls \<open>mean()\<close>; \<open>log_like\<close> and
  \<open>kl\<close> do not.
\<close>

theorem unset_sample_axis_mean_raises:
  "sum_log_prob latent_p None None
     (filter (\<lambda>n. \<not> contains scenario_q n) (conditioned latent_p)) = Inr (Num 0)
   \<and> log_like scenario_q latent_p None None log_weights = Inl AttributeError
   \<and> sum_log_prob labels_p None None (sampled labels_q) = Inr (Num 0)
   \<and> sum_log_prob labels_q None None (sampled labels_q) = Inr (Num 0)
   \<and> vsub (Num 0) (Num 0) = Inr (Num 0)
   \<and> kl labels_q labels_p None None log_weights = Inl AttributeError"
  by (simp add: log_like_def kl_def sum_log_prob_def scenario_q_def latent_p_def labels_q_def
        labels_p_def contains_def names_def conditioned_def sampled_def vsub_def)

text \<open>
  Claim C6. Passing the reduction of the conditioned names of \<open>q\<close> as log-weights
  gives the result that passing no log-weights gives, for \<open>log_like\<close> and for \<open>kl\<close>.
\<close>

theorem shared_weight_consistency:
  assumes "sum_log_prob q sample_dim batch_dim (conditioned q) = Inr w"
  shows "log_like q p sample_dim batch_dim (Some w) = log_like q p sample_dim batch_dim None
       \<and> kl q p sample_dim batch_dim (Some w) = kl q p sample_dim batch_dim None"
  using assms by (cases sample_dim) (simp_all add: log_like_def kl_def Let_def)

theorem shared_weight_consistency_witness:
  "sum_log_prob weighted_q (Some 0) (Some 1) (conditioned weighted_q)
     = Inr (Ten \<lparr>shape = [2], data = [0, ln 3]\<rparr>)
   \<and> log_like weighted_q weighted_p (Some 0) (Some 1) (Some (Ten \<lparr>shape = [2], data = [0, ln 3]\<rparr>))
     = log_like weighted_q weighted_p (Some 0) (Some 1) None
   \<and> kl weighted_q weighted_p (Some 0) (Some 1) (Some (Ten \<lparr>shape = [2], data = [0, ln 3]\<rparr>))
     = kl weighted_q weighted_p (Some 0) (Some 1) None"
  using shared_weight_consistency [OF red_y, of weighted_p] red_y by simp

text \<open>
  Claim C7 says that on the unweighted path, taken when the sample axis is unset or the
  log-weights are a plain number, \<open>log_like\<close> and \<open>kl\<close> return normally. On two empty
  traces they do not: the reduction is the plain number 0 and \<open>mean()\<close> is called on it,
  without a sample axis, with computed log-weights that are a plain number, and with
  supplied ones. \<open>ml\<close> returns on the same trace.
\<close>

theorem unweighted_path_raises:
  "log_like [] [] None None None = Inl AttributeError
   \<and> kl [] [] None None None = Inl AttributeError
   \<and> sum_log_prob [] (Some 0) None (conditioned []) = Inr (Num 0)
   \<and> log_like [] [] (Some 0) None None = Inl AttributeError
   \<and> kl [] [] (Some 0) None None = Inl AttributeError
   \<and> log_like [] [] (Some 0) None (Some (Num 0)) = Inl AttributeError
   \<and> kl [] [] (Some 0) None (Some (Num 0)) = Inl AttributeError
   \<and> ml [] None None = Inr (Num 0)"
  by (simp add: log_like_def kl_def ml_def sum_log_prob_def conditioned_def sampled_def vsub_def)

text \<open>
  Claim C8. The weights that \<open>log_like\<close> and \<open>kl\<close> build, \<open>softmax(log_weights, 0)\<close>,
  for a log-weight tensor whose axis 0 (the sample axis) has size \<open>S > 0\<close>: every weight is
  nonnegative, and at every position \<open>j\<close> below the sample axis (every batch index) the
  weights of the \<open>S\<close> samples sum to 1; said with the tensor operation, \<open>sum(0)\<close> of the
  weights is the tensor of ones.
\<close>

theorem softmax_weights_normalized:
  assumes "wf_tensor t" and "shape t = S # rest" and "0 < S"
  shows "shape (softmax0 t) = shape t
       \<and> (\<forall>x \<in> set (data (softmax0 t)). 0 \<le> x)
       \<and> (\<forall>j < prod_list rest.
            sum_list (map (\<lambda>s. data (softmax0 t) ! (s * prod_list rest + j)) [0..<S]) = 1)
       \<and> sum0 (softmax0 t) = \<lparr>shape = rest, data = replicate (prod_list rest) 1\<rparr>"
  using assms softmax0_shape softmax0_nonneg softmax0_column sum0_softmax0 by blast

theorem softmax_weights_normalized_witness:
  "wf_tensor \<lparr>shape = [2, 2], data = [0, 0, ln 3, 0]\<rparr>
   \<and> (0::nat) < 2
   \<and> softmax0 \<lparr>shape = [2, 2], data = [0, 0, ln 3, 0]\<rparr>
       = \<lparr>shape = [2, 2], data = [1/4, 1/2, 3/4, 1/2]\<rparr>
   \<and> sum0 (softmax0 \<lparr>shape = [2, 2], data = [0, 0, ln 3, 0]\<rparr>) = \<lparr>shape = [2], data = [1, 1]\<rparr>"
proof -
  let ?t = "\<lparr>shape = [2, 2], data = [0, 0, ln 3, 0]\<rparr>"
  have wf: "wf_tensor ?t" by (simp add: wf_tensor_def)
  have sh: "shape ?t = 2 # [2]" by simp
  have val: "softmax0 ?t = \<lparr>shape = [2, 2], data = [1/4, 1/2, 3/4, 1/2]\<rparr>"
    by (simp add: softmax0_def dim0_def inner0_def upt_rec)
  from softmax_weights_normalized [OF wf sh] wf val show ?thesis
    by (simp add: numeral_2_eq_2)
qed

text \<open>
  Claim C9. The reduction over no names is the plain number 0. With the sample axis
  unset, \<open>log_like\<close> with an empty \<open>x\<close> and \<open>kl\<close> with nothing sampled in \<open>q\<close> call
  \<open>mean()\<close> on that number and fail with \<open>AttributeError\<close>; \<open>ml\<close> tests for a plain number
  and returns it.
\<close>

theorem bare_zero_mean_fails:
  "sum_log_prob tr sample_dim batch_dim [] = Inr (Num 0)
   \<and> (filter (\<lambda>n. \<not> contains q n) (conditioned p) = []
        \<longrightarrow> log_like q p None batch_dim log_weights = Inl AttributeError)
   \<and> (sampled q = [] \<longrightarrow> kl q p None batch_dim log_weights = Inl AttributeError)
   \<and> (conditioned q = [] \<longrightarrow> ml q sample_dim batch_dim = Inr (Num 0))"
  by (simp add: log_like_def kl_def ml_def sum_log_prob_def vsub_def Let_def)

theorem bare_zero_mean_fails_witness:
  "filter (\<lambda>n. \<not> contains labels_q n) (conditioned labels_p) = []
   \<and> log_like labels_q labels_p None None None = Inl AttributeError
   \<and> sampled labels_q = []
   \<and> kl labels_q labels_p None None None = Inl AttributeError
   \<and> conditioned [] = []
   \<and> log_like [] [] None None None = Inl AttributeError
   \<and> kl [] [] None None None = Inl AttributeError
   \<and> ml [] None None = Inr (Num 0)"
proof -
  have a: "filter (\<lambda>n. \<not> contains labels_q n) (conditioned labels_p) = []"
    by (simp add: labels_q_def labels_p_def contains_def names_def conditioned_def)
  have b: "sampled labels_q = []"
    by (simp add: labels_q_def sampled_def)
  have c: "conditioned [] = []" "sampled [] = []"
           "filter (\<lambda>n. \<not> contains [] n) (conditioned []) = []"
    by (simp_all add: conditioned_def sampled_def)
  from bare_zero_mean_fails [where q = labels_q and p = labels_p and batch_dim = None
                               and log_weights = None] a b
  have one: "log_like labels_q labels_p None None None = Inl AttributeError
             \<and> kl labels_q labels_p None None None = Inl AttributeError"
    by blast
  from bare_zero_mean_fails [where q = "[]" and p = "[]" and sample_dim = None
                               and batch_dim = None and log_weights = None] c
  have two: "log_like [] [] None None None = Inl AttributeError
             \<and> kl [] [] None None None = Inl AttributeError
             \<and> ml [] None None = Inr (Num 0)"
    by blast
  from a b c one two show ?thesis by simp
qed

end
